theory Spec2Isabelle
  imports Main
begin

section \<open>Values shared by the service client and the UI controller\<close>

text \<open>
  A value that a JavaScript \<open>throw\<close> or a promise rejection carries. The UI controller
  distinguishes instances of \<open>Error\<close> (whose \<open>message\<close> it shows) from everything else;
  the file reader rejects with the event object that \<open>onerror\<close> receives.
\<close>

datatype thrown = Error string | ProgressEvent | OtherValue

text \<open>\<open>AspectRatio\<close> (imported from \<open>./types\<close>): the five options of the selector.\<close>

datatype AspectRatio = R_1_1 | R_16_9 | R_9_16 | R_4_3 | R_3_4

text \<open>An object \<open>{ data, mimeType }\<close>: the edit source kept by the UI and the inline data of a
  content part.\<close>

record blob =
  data :: string
  mimeType :: string

text \<open>
  An asynchronous function runs synchronously up to its first \<open>await\<close>. Either it returned
  before reaching one, or it is suspended on a call, with the state it has written so far.
\<close>

datatype ('s, 'c) started = Returned 's | Awaiting 's 'c

section \<open>Image service client\<close>

subsection \<open>\<open>generateImage\<close>\<close>

record gen_request =
  model :: string
  req_prompt :: string
  numberOfImages :: nat
  outputMimeType :: string
  req_aspectRatio :: AspectRatio

record image =
  imageBytes :: "string option"

record generated_image =
  image :: "image option"

record gen_response =
  generatedImages :: "generated_image list option"

text \<open>The text after the \<open>await\<close> inside the \<open>try\<close> block. Reading \<open>imageBytes\<close> of an absent
  \<open>image\<close> throws a \<open>TypeError\<close>, which is an \<open>Error\<close>.\<close>

definition generateImage_try :: "gen_response \<Rightarrow> thrown + string" where
  "generateImage_try response =
     (case generatedImages response of
        Some (g # _) \<Rightarrow>
          (case image g of
             None \<Rightarrow> Inl (Error ''Cannot read properties of undefined'')
           | Some im \<Rightarrow>
               (case imageBytes im of
                  Some (c # cs) \<Rightarrow> Inr (c # cs)
                | _ \<Rightarrow> Inl (Error ''No image was generated. The response might have been blocked.'')))
      | _ \<Rightarrow> Inl (Error ''No image was generated. The response might have been blocked.''))"

definition generateImage_request :: "string \<Rightarrow> AspectRatio \<Rightarrow> gen_request" where
  "generateImage_request p ar =
     \<lparr>model = ''imagen-4.0-generate-001'', req_prompt = p, numberOfImages = 1,
      outputMimeType = ''image/jpeg'', req_aspectRatio = ar\<rparr>"

text \<open>\<open>api\<close> stands for \<open>ai.models.generateImages\<close>: the remote call either throws or returns a
  response. Whatever is thrown inside the \<open>try\<close> block is replaced by one fixed error.\<close>

definition generateImage ::
  "(gen_request \<Rightarrow> thrown + gen_response) \<Rightarrow> string \<Rightarrow> AspectRatio \<Rightarrow> thrown + string" where
  "generateImage api p ar =
     (case (case api (generateImage_request p ar) of
              Inl e \<Rightarrow> Inl e
            | Inr response \<Rightarrow> generateImage_try response) of
        Inl _ \<Rightarrow> Inl (Error ''Failed to generate image. Please check the prompt or try again later.'')
      | Inr bytes \<Rightarrow> Inr bytes)"

subsection \<open>\<open>editImage\<close>\<close>

datatype Modality = TEXT | IMAGE | AUDIO

record part =
  inlineData :: "blob option"
  text_of :: "string option"

record content =
  parts :: "part list option"

record candidate =
  content_of :: "content option"

record edit_response =
  candidates :: "candidate list option"

record edit_request =
  edit_model :: string
  contents_parts :: "part list"
  responseModalities :: "Modality list"

text \<open>The \<open>for ... of\<close> loop over the parts, with the \<open>throw\<close> that follows it.\<close>

fun editImage_scan :: "part list \<Rightarrow> thrown + string" where
  "editImage_scan [] =
     Inl (Error ''No edited image was returned. The response might have been blocked.'')"
| "editImage_scan (p # ps) =
     (case inlineData p of
        Some b \<Rightarrow> Inr (data b)
      | None \<Rightarrow> editImage_scan ps)"

text \<open>\<open>response.candidates[0].content.parts\<close>, as the loop header evaluates it: every
  absent link of the chain, and iterating over an absent list, throws a \<open>TypeError\<close>.\<close>

definition response_parts :: "edit_response \<Rightarrow> thrown + part list" where
  "response_parts response =
     (case candidates response of
        Some (c # _) \<Rightarrow>
          (case content_of c of
             Some ct \<Rightarrow>
               (case parts ct of
                  Some ps \<Rightarrow> Inr ps
                | None \<Rightarrow> Inl (Error ''undefined is not iterable''))
           | None \<Rightarrow> Inl (Error ''Cannot read properties of undefined''))
      | _ \<Rightarrow> Inl (Error ''Cannot read properties of undefined''))"

definition editImage_try :: "edit_response \<Rightarrow> thrown + string" where
  "editImage_try response =
     (case response_parts response of
        Inl e \<Rightarrow> Inl e
      | Inr ps \<Rightarrow> editImage_scan ps)"

definition editImage_request :: "string \<Rightarrow> string \<Rightarrow> string \<Rightarrow> edit_request" where
  "editImage_request p imageDataBase64 mt =
     \<lparr>edit_model = ''gemini-2.5-flash-image'',
      contents_parts =
        [\<lparr>inlineData = Some \<lparr>data = imageDataBase64, mimeType = mt\<rparr>, text_of = None\<rparr>,
         \<lparr>inlineData = None, text_of = Some p\<rparr>],
      responseModalities = [IMAGE]\<rparr>"

definition editImage ::
  "(edit_request \<Rightarrow> thrown + edit_response) \<Rightarrow> string \<Rightarrow> string \<Rightarrow> string \<Rightarrow> thrown + string" where
  "editImage api p imageDataBase64 mt =
     (case (case api (editImage_request p imageDataBase64 mt) of
              Inl e \<Rightarrow> Inl e
            | Inr response \<Rightarrow> editImage_try response) of
        Inl _ \<Rightarrow> Inl (Error ''Failed to edit image. Please check your instructions or try again later.'')
      | Inr bytes \<Rightarrow> Inr bytes)"

section \<open>File-to-payload conversion\<close>

record File =
  file_name :: string
  file_type :: string

record payload =
  base64 :: string
  payload_mimeType :: string

text \<open>\<open>String.prototype.split\<close> with a one-character separator: the pieces between the
  separators, in order; the empty string gives one empty piece.\<close>

fun js_split :: "char \<Rightarrow> string \<Rightarrow> string list" where
  "js_split sep [] = [[]]"
| "js_split sep (x # xs) =
     (if x = sep then [] # js_split sep xs
      else (case js_split sep xs of
              [] \<Rightarrow> [[x]]
            | y # ys \<Rightarrow> (x # y) # ys))"

text \<open>Indexing an array: \<open>undefined\<close> out of range.\<close>

fun js_index :: "'a list \<Rightarrow> nat \<Rightarrow> 'a option" where
  "js_index [] n = None"
| "js_index (x # xs) 0 = Some x"
| "js_index (x # xs) (Suc n) = js_index xs n"

text \<open>\<open>reader\<close> stands for the \<open>FileReader\<close>: \<open>readAsDataURL\<close> ends either in \<open>onerror\<close> with an
  event or in \<open>onload\<close> with \<open>reader.result\<close>.\<close>

definition fileToBase64 :: "(File \<Rightarrow> thrown + string) \<Rightarrow> File \<Rightarrow> thrown + payload" where
  "fileToBase64 reader f =
     (case reader f of
        Inl ev \<Rightarrow> Inl ev
      | Inr result \<Rightarrow>
          (case js_index (js_split CHR '','' result) 1 of
             Some (c # cs) \<Rightarrow> Inr \<lparr>base64 = c # cs, payload_mimeType = file_type f\<rparr>
           | _ \<Rightarrow> Inl (Error ''Failed to read base64 string from file.'')))"

section \<open>UI controller\<close>

datatype Mode = generate | edit

record app_state =
  mode :: Mode
  prompt :: string
  editPrompt :: string
  aspectRatio :: AspectRatio
  imageSrc :: "string option"
  originalImageForEdit :: "blob option"
  isLoading :: bool
  error :: "string option"

definition initial :: app_state where
  "initial =
     \<lparr>mode = generate, prompt = [], editPrompt = [], aspectRatio = R_1_1, imageSrc = None,
      originalImageForEdit = None, isLoading = False, error = None\<rparr>"

definition clearError :: "app_state \<Rightarrow> app_state" where
  "clearError s = s\<lparr>error := None\<rparr>"

subsection \<open>\<open>handleGenerate\<close>\<close>

text \<open>\<open>handleGenerate_begin\<close> is the handler up to its \<open>await\<close>; \<open>handleGenerate_resume\<close> is the rest
  of the \<open>try\<close> statement, given how the promise of \<open>generateImage\<close> settled.\<close>

definition handleGenerate_begin :: "app_state \<Rightarrow> (app_state, string \<times> AspectRatio) started" where
  "handleGenerate_begin s =
     (if prompt s = [] then
        Returned (s\<lparr>error := Some ''Please enter a prompt to generate an image.''\<rparr>)
      else
        Awaiting ((clearError s)\<lparr>isLoading := True, imageSrc := None, originalImageForEdit := None\<rparr>)
          (prompt s, aspectRatio s))"

definition handleGenerate_resume :: "app_state \<Rightarrow> thrown + string \<Rightarrow> app_state" where
  "handleGenerate_resume s r =
     (case r of
        Inr base64Image \<Rightarrow>
          s\<lparr>imageSrc := Some (''data:image/jpeg;base64,'' @ base64Image),
            originalImageForEdit := Some \<lparr>data = base64Image, mimeType = ''image/jpeg''\<rparr>\<rparr>
      | Inl e \<Rightarrow>
          s\<lparr>error := Some (case e of
                             Error message \<Rightarrow> message
                           | _ \<Rightarrow> ''An unknown error occurred during image generation.'')\<rparr>)
     \<lparr>isLoading := False\<rparr>"

text \<open>The handler from its invocation to its end, for a given behaviour of the remote API,
  when no other event touches the state while the call is outstanding. The same holds for
  \<open>handleEdit\<close> and \<open>handleFileChange\<close> below.\<close>

definition handleGenerate ::
  "(gen_request \<Rightarrow> thrown + gen_response) \<Rightarrow> app_state \<Rightarrow> app_state" where
  "handleGenerate api s =
     (case handleGenerate_begin s of
        Returned s' \<Rightarrow> s'
      | Awaiting s' (p, ar) \<Rightarrow> handleGenerate_resume s' (generateImage api p ar))"

subsection \<open>\<open>handleEdit\<close>\<close>

definition handleEdit_begin :: "app_state \<Rightarrow> (app_state, string \<times> string \<times> string) started" where
  "handleEdit_begin s =
     (if editPrompt s = [] then
        Returned (s\<lparr>error := Some ''Please enter an editing instruction.''\<rparr>)
      else
        (case originalImageForEdit s of
           None \<Rightarrow> Returned (s\<lparr>error := Some ''No image loaded for editing.''\<rparr>)
         | Some orig \<Rightarrow>
             Awaiting ((clearError s)\<lparr>isLoading := True\<rparr>) (editPrompt s, data orig, mimeType orig)))"

definition handleEdit_resume :: "app_state \<Rightarrow> thrown + string \<Rightarrow> app_state" where
  "handleEdit_resume s r =
     (case r of
        Inr base64Image \<Rightarrow>
          s\<lparr>imageSrc := Some (''data:image/png;base64,'' @ base64Image),
            originalImageForEdit := Some \<lparr>data = base64Image, mimeType = ''image/png''\<rparr>\<rparr>
      | Inl e \<Rightarrow>
          s\<lparr>error := Some (case e of
                             Error message \<Rightarrow> message
                           | _ \<Rightarrow> ''An unknown error occurred during image editing.'')\<rparr>)
     \<lparr>isLoading := False\<rparr>"

definition handleEdit ::
  "(edit_request \<Rightarrow> thrown + edit_response) \<Rightarrow> app_state \<Rightarrow> app_state" where
  "handleEdit api s =
     (case handleEdit_begin s of
        Returned s' \<Rightarrow> s'
      | Awaiting s' (p, d, mt) \<Rightarrow> handleEdit_resume s' (editImage api p d mt))"

subsection \<open>\<open>handleFileChange\<close>\<close>

definition startsWith :: "string \<Rightarrow> string \<Rightarrow> bool" where
  "startsWith s p = (take (length p) s = p)"

text \<open>The argument is \<open>event.target.files?.[0]\<close>.\<close>

definition handleFileChange_begin :: "app_state \<Rightarrow> File option \<Rightarrow> (app_state, File) started" where
  "handleFileChange_begin s fo =
     (case fo of
        None \<Rightarrow> Returned s
      | Some f \<Rightarrow>
          (if \<not> startsWith (file_type f) ''image/'' then
             Returned (s\<lparr>error := Some ''Please select an image file.''\<rparr>)
           else Awaiting ((clearError s)\<lparr>isLoading := True\<rparr>) f))"

definition handleFileChange_resume :: "app_state \<Rightarrow> thrown + payload \<Rightarrow> app_state" where
  "handleFileChange_resume s r =
     (case r of
        Inr p \<Rightarrow>
          s\<lparr>imageSrc := Some (''data:'' @ payload_mimeType p @ '';base64,'' @ base64 p),
            originalImageForEdit := Some \<lparr>data = base64 p, mimeType = payload_mimeType p\<rparr>,
            mode := edit\<rparr>
      | Inl e \<Rightarrow> s\<lparr>error := Some ''Failed to load image.''\<rparr>)
     \<lparr>isLoading := False\<rparr>"

definition handleFileChange ::
  "(File \<Rightarrow> thrown + string) \<Rightarrow> app_state \<Rightarrow> File option \<Rightarrow> app_state" where
  "handleFileChange reader s fo =
     (case handleFileChange_begin s fo of
        Returned s' \<Rightarrow> s'
      | Awaiting s' f \<Rightarrow> handleFileChange_resume s' (fileToBase64 reader f))"

subsection \<open>The synchronous handlers\<close>

text \<open>A string or \<open>null\<close> used as a condition: \<open>null\<close> and the empty string are falsy.\<close>

definition truthy :: "string option \<Rightarrow> bool" where
  "truthy v = (case v of None \<Rightarrow> False | Some t \<Rightarrow> t \<noteq> [])"

definition switchToEditMode :: "app_state \<Rightarrow> app_state" where
  "switchToEditMode s = (if truthy (imageSrc s) then s\<lparr>mode := edit\<rparr> else s)"

definition handleModeChange :: "app_state \<Rightarrow> Mode \<Rightarrow> app_state" where
  "handleModeChange s newMode = clearError (s\<lparr>mode := newMode\<rparr>)"

section \<open>The rendered controls\<close>

text \<open>
  What is outstanding: a call of \<open>generateImage\<close>, of \<open>editImage\<close> or of \<open>fileToBase64\<close>, with
  the arguments its handler passed.
\<close>

datatype pending = GenerateCall string AspectRatio | EditCall string string string | FileRead File

text \<open>How the remote API or the file reader answers an outstanding call.\<close>

datatype settlement =
    GenerateSettles "thrown + gen_response"
  | EditSettles "thrown + edit_response"
  | ReadSettles "thrown + string"

text \<open>What the user can do with the rendered page, and the settling of an outstanding call.\<close>

datatype event =
    ClickTab Mode
  | DismissError
  | TypePrompt string
  | SelectAspectRatio AspectRatio
  | ClickGenerate
  | ChooseFile "File option"
  | TypeEditPrompt string
  | ClickEdit
  | ClickSwitchToEdit
  | Settle nat settlement

record ui =
  app :: app_state
  inflight :: "pending list"

definition initial_ui :: ui where
  "initial_ui = \<lparr>app = initial, inflight = []\<rparr>"

text \<open>The continuation of the handler suspended on a call, run on the state of the moment the
  call settles.\<close>

fun settle_app :: "app_state \<Rightarrow> pending \<Rightarrow> settlement \<Rightarrow> app_state option" where
  "settle_app s (GenerateCall p ar) (GenerateSettles out) =
     Some (handleGenerate_resume s (generateImage (\<lambda>_. out) p ar))"
| "settle_app s (EditCall p d mt) (EditSettles out) =
     Some (handleEdit_resume s (editImage (\<lambda>_. out) p d mt))"
| "settle_app s (FileRead f) (ReadSettles out) =
     Some (handleFileChange_resume s (fileToBase64 (\<lambda>_. out) f))"
| "settle_app s _ _ = None"

text \<open>
  One event on the page that the component renders for the state: \<open>None\<close> when the control is
  not rendered or is disabled. The two tabs are always there. The error banner with its
  dismiss button is rendered when \<open>error\<close> is truthy. Generate mode renders the prompt, the
  aspect-ratio selector and the generate button (\<open>disabled={isLoading}\<close>). Edit mode renders
  the file input with its upload button (no \<open>disabled\<close> attribute) and, when an edit source is
  held, the instruction field and the edit button
  (\<open>disabled={isLoading || !originalImageForEdit}\<close>). The button that switches to edit mode is
  rendered when \<open>imageSrc && !isLoading\<close>.
\<close>

fun step :: "ui \<Rightarrow> event \<Rightarrow> ui option" where
  "step u (ClickTab newMode) = Some (u\<lparr>app := handleModeChange (app u) newMode\<rparr>)"
| "step u DismissError =
     (if truthy (error (app u)) then Some (u\<lparr>app := clearError (app u)\<rparr>) else None)"
| "step u (TypePrompt v) =
     (if mode (app u) = generate then Some (u\<lparr>app := (app u)\<lparr>prompt := v\<rparr>\<rparr>) else None)"
| "step u (SelectAspectRatio v) =
     (if mode (app u) = generate then Some (u\<lparr>app := (app u)\<lparr>aspectRatio := v\<rparr>\<rparr>) else None)"
| "step u ClickGenerate =
     (if mode (app u) = generate \<and> \<not> isLoading (app u) then
        (case handleGenerate_begin (app u) of
           Returned s' \<Rightarrow> Some (u\<lparr>app := s'\<rparr>)
         | Awaiting s' (p, ar) \<Rightarrow> Some \<lparr>app = s', inflight = inflight u @ [GenerateCall p ar]\<rparr>)
      else None)"
| "step u (ChooseFile fo) =
     (if mode (app u) = edit then
        (case handleFileChange_begin (app u) fo of
           Returned s' \<Rightarrow> Some (u\<lparr>app := s'\<rparr>)
         | Awaiting s' f \<Rightarrow> Some \<lparr>app = s', inflight = inflight u @ [FileRead f]\<rparr>)
      else None)"
| "step u (TypeEditPrompt v) =
     (if mode (app u) = edit \<and> originalImageForEdit (app u) \<noteq> None
      then Some (u\<lparr>app := (app u)\<lparr>editPrompt := v\<rparr>\<rparr>) else None)"
| "step u ClickEdit =
     (if mode (app u) = edit \<and> originalImageForEdit (app u) \<noteq> None
         \<and> \<not> (isLoading (app u) \<or> originalImageForEdit (app u) = None) then
        (case handleEdit_begin (app u) of
           Returned s' \<Rightarrow> Some (u\<lparr>app := s'\<rparr>)
         | Awaiting s' (p, d, mt) \<Rightarrow> Some \<lparr>app = s', inflight = inflight u @ [EditCall p d mt]\<rparr>)
      else None)"
| "step u ClickSwitchToEdit =
     (if truthy (imageSrc (app u)) \<and> \<not> isLoading (app u)
      then Some (u\<lparr>app := switchToEditMode (app u)\<rparr>) else None)"
| "step u (Settle i out) =
     (if i < length (inflight u) then
        (case settle_app (app u) (inflight u ! i) out of
           Some s' \<Rightarrow> Some \<lparr>app = s', inflight = take i (inflight u) @ drop (Suc i) (inflight u)\<rparr>
         | None \<Rightarrow> None)
      else None)"

fun run :: "ui \<Rightarrow> event list \<Rightarrow> ui option" where
  "run u [] = Some u"
| "run u (e # es) = (case step u e of None \<Rightarrow> None | Some u' \<Rightarrow> run u' es)"

section \<open>The file conversion as the specification words it\<close>



section \<open>Validation\<close>

text \<open>
  C5. With an empty prompt, \<open>handleGenerate\<close> returns before it reaches the call of
  \<open>generateImage\<close>: it only stores its message in the error slot. Whatever the remote API
  would answer, the run ends in that state, so mode, images, prompts, aspect ratio and the
  loading flag are as before.
\<close>

theorem generate_empty_prompt:
  assumes "prompt s = []"
  shows "handleGenerate_begin s =
           Returned (s\<lparr>error := Some ''Please enter a prompt to generate an image.''\<rparr>)
       \<and> handleGenerate api s = s\<lparr>error := Some ''Please enter a prompt to generate an image.''\<rparr>
       \<and> mode (handleGenerate api s) = mode s
       \<and> imageSrc (handleGenerate api s) = imageSrc s
       \<and> originalImageForEdit (handleGenerate api s) = originalImageForEdit s
       \<and> prompt (handleGenerate api s) = prompt s
       \<and> editPrompt (handleGenerate api s) = editPrompt s
       \<and> isLoading (handleGenerate api s) = isLoading s"
  using assms by (simp add: handleGenerate_def handleGenerate_begin_def)

theorem generate_empty_prompt_witness:
  "prompt initial = []
   \<and> handleGenerate_begin initial =
         Returned (initial\<lparr>error := Some ''Please enter a prompt to generate an image.''\<rparr>)
   \<and> handleGenerate (\<lambda>_. Inl OtherValue) initial =
         initial\<lparr>error := Some ''Please enter a prompt to generate an image.''\<rparr>"
proof -
  have e: "prompt initial = []" by (simp add: initial_def)
  from generate_empty_prompt [OF e, where api = "\<lambda>_. Inl OtherValue"] e show ?thesis by simp
qed

text \<open>
  C6. With an empty instruction, or with no edit source, \<open>handleEdit\<close> returns before it reaches
  the call of \<open>editImage\<close>: it only stores a message in the error slot (the instruction is
  checked first).
\<close>

theorem edit_rejected:
  assumes "editPrompt s = [] \<or> originalImageForEdit s = None"
  defines "msg \<equiv> (if editPrompt s = [] then ''Please enter an editing instruction.''
                    else ''No image loaded for editing.'')"
  shows "handleEdit_begin s = Returned (s\<lparr>error := Some msg\<rparr>)
       \<and> handleEdit api s = s\<lparr>error := Some msg\<rparr>
       \<and> mode (handleEdit api s) = mode s
       \<and> imageSrc (handleEdit api s) = imageSrc s
       \<and> originalImageForEdit (handleEdit api s) = originalImageForEdit s
       \<and> prompt (handleEdit api s) = prompt s
       \<and> editPrompt (handleEdit api s) = editPrompt s
       \<and> isLoading (handleEdit api s) = isLoading s"
  using assms by (auto simp: handleEdit_def handleEdit_begin_def)

theorem edit_rejected_witness:
  "(editPrompt (initial\<lparr>editPrompt := ''add a hat''\<rparr>) = []
      \<or> originalImageForEdit (initial\<lparr>editPrompt := ''add a hat''\<rparr>) = None)
   \<and> handleEdit_begin (initial\<lparr>editPrompt := ''add a hat''\<rparr>) =
         Returned (initial\<lparr>editPrompt := ''add a hat'', error := Some ''No image loaded for editing.''\<rparr>)
   \<and> handleEdit_begin initial =
         Returned (initial\<lparr>error := Some ''Please enter an editing instruction.''\<rparr>)"
proof -
  have a: "editPrompt (initial\<lparr>editPrompt := ''add a hat''\<rparr>) = []
      \<or> originalImageForEdit (initial\<lparr>editPrompt := ''add a hat''\<rparr>) = None"
    by (simp add: initial_def)
  have b: "editPrompt initial = [] \<or> originalImageForEdit initial = None"
    by (simp add: initial_def)
  from edit_rejected [OF a] edit_rejected [OF b] a show ?thesis
    by (simp add: initial_def)
qed

text \<open>
  C8. When the type of the selected file does not start with \<open>image/\<close>, \<open>handleFileChange\<close>
  stores its message in the error slot and returns before it starts reading the file: mode,
  displayed image, edit source and loading flag are as before.
\<close>

theorem upload_non_image:
  assumes "\<not> startsWith (file_type f) ''image/''"
  shows "handleFileChange_begin s (Some f) =
           Returned (s\<lparr>error := Some ''Please select an image file.''\<rparr>)
       \<and> handleFileChange reader s (Some f) = s\<lparr>error := Some ''Please select an image file.''\<rparr>
       \<and> mode (handleFileChange reader s (Some f)) = mode s
       \<and> imageSrc (handleFileChange reader s (Some f)) = imageSrc s
       \<and> originalImageForEdit (handleFileChange reader s (Some f)) = originalImageForEdit s
       \<and> isLoading (handleFileChange reader s (Some f)) = isLoading s"
  using assms by (simp add: handleFileChange_def handleFileChange_begin_def)

theorem upload_non_image_witness:
  "\<not> startsWith (file_type \<lparr>file_name = ''notes.txt'', file_type = ''text/plain''\<rparr>) ''image/''
   \<and> handleFileChange (\<lambda>_. Inr ''data:text/plain;base64,aGk='') (initial\<lparr>mode := edit\<rparr>)
         (Some \<lparr>file_name = ''notes.txt'', file_type = ''text/plain''\<rparr>) =
       initial\<lparr>mode := edit, error := Some ''Please select an image file.''\<rparr>"
proof -
  have t: "\<not> startsWith (file_type \<lparr>file_name = ''notes.txt'', file_type = ''text/plain''\<rparr>) ''image/''"
    by (simp add: startsWith_def)
  from upload_non_image [OF t, where reader = "\<lambda>_. Inr ''data:text/plain;base64,aGk=''"
      and s = "initial\<lparr>mode := edit\<rparr>"] t
  show ?thesis by (simp add: initial_def)
qed

section \<open>Successful operations\<close>

text \<open>
  C3. From a state with a non-empty prompt, when \<open>generateImage\<close> resolves with bytes \<open>b\<close>, the
  run of \<open>handleGenerate\<close> ends with the displayed image the JPEG data URL of \<open>b\<close> and with
  the edit source \<open>b\<close> labelled \<open>image/jpeg\<close>, the output format the request asked for. The
  call was made with the prompt and aspect ratio of the state.
\<close>

theorem generate_success:
  assumes "prompt s \<noteq> []"
    and "generateImage api (prompt s) (aspectRatio s) = Inr b"
  shows "imageSrc (handleGenerate api s) = Some (''data:image/jpeg;base64,'' @ b)
       \<and> originalImageForEdit (handleGenerate api s) = Some \<lparr>data = b, mimeType = ''image/jpeg''\<rparr>
       \<and> outputMimeType (generateImage_request (prompt s) (aspectRatio s)) = ''image/jpeg''
       \<and> (\<exists>s'. handleGenerate_begin s = Awaiting s' (prompt s, aspectRatio s))
       \<and> \<not> isLoading (handleGenerate api s)
       \<and> error (handleGenerate api s) = None"
  using assms
  by (simp add: handleGenerate_def handleGenerate_begin_def handleGenerate_resume_def
      generateImage_request_def clearError_def)

theorem generate_success_witness:
  "prompt (initial\<lparr>prompt := ''a red circle''\<rparr>) \<noteq> []
   \<and> generateImage
         (\<lambda>_. Inr \<lparr>generatedImages = Some [\<lparr>image = Some \<lparr>imageBytes = Some ''QUJD''\<rparr>\<rparr>]\<rparr>)
         ''a red circle'' R_1_1 = Inr ''QUJD''
   \<and> imageSrc
         (handleGenerate
            (\<lambda>_. Inr \<lparr>generatedImages = Some [\<lparr>image = Some \<lparr>imageBytes = Some ''QUJD''\<rparr>\<rparr>]\<rparr>)
            (initial\<lparr>prompt := ''a red circle''\<rparr>)) =
       Some ''data:image/jpeg;base64,QUJD''
   \<and> originalImageForEdit
         (handleGenerate
            (\<lambda>_. Inr \<lparr>generatedImages = Some [\<lparr>image = Some \<lparr>imageBytes = Some ''QUJD''\<rparr>\<rparr>]\<rparr>)
            (initial\<lparr>prompt := ''a red circle''\<rparr>)) =
       Some \<lparr>data = ''QUJD'', mimeType = ''image/jpeg''\<rparr>"
proof -
  let ?api = "\<lambda>_ :: gen_request. (Inr \<lparr>generatedImages =
      Some [\<lparr>image = Some \<lparr>imageBytes = Some ''QUJD''\<rparr>\<rparr>]\<rparr> :: thrown + gen_response)"
  let ?s = "initial\<lparr>prompt := ''a red circle''\<rparr>"
  have p: "prompt ?s \<noteq> []" by simp
  have g: "generateImage ?api (prompt ?s) (aspectRatio ?s) = Inr ''QUJD''"
    by (simp add: generateImage_def generateImage_try_def)
  have a: "aspectRatio ?s = R_1_1" by (simp add: initial_def)
  from generate_success [OF p g] p g a show ?thesis by simp
qed

text \<open>
  C4. From a state with a non-empty instruction and an edit source, when \<open>editImage\<close> resolves
  with bytes \<open>b\<close>, the run of \<open>handleEdit\<close> ends with the displayed image the PNG data URL of
  \<open>b\<close> and with the edit source \<open>b\<close> labelled \<open>image/png\<close>. The call was made with the bytes and
  type of the edit source held before, and the next \<open>handleEdit\<close> calls \<open>editImage\<close> with \<open>b\<close> and
  \<open>image/png\<close>.
\<close>

theorem edit_success:
  assumes "editPrompt s \<noteq> []"
    and "originalImageForEdit s = Some orig"
    and "editImage api (editPrompt s) (data orig) (mimeType orig) = Inr b"
  shows "imageSrc (handleEdit api s) = Some (''data:image/png;base64,'' @ b)
       \<and> originalImageForEdit (handleEdit api s) = Some \<lparr>data = b, mimeType = ''image/png''\<rparr>
       \<and> (\<exists>s'. handleEdit_begin s = Awaiting s' (editPrompt s, data orig, mimeType orig))
       \<and> (\<exists>s'. handleEdit_begin (handleEdit api s) = Awaiting s' (editPrompt s, b, ''image/png''))
       \<and> \<not> isLoading (handleEdit api s)
       \<and> error (handleEdit api s) = None"
  using assms
  by (simp add: handleEdit_def handleEdit_begin_def handleEdit_resume_def clearError_def)

theorem edit_success_witness:
  "editPrompt \<lparr>mode = edit, prompt = [], editPrompt = ''add a hat'', aspectRatio = R_1_1,
       imageSrc = Some ''data:image/jpeg;base64,QUJD'',
       originalImageForEdit = Some \<lparr>data = ''QUJD'', mimeType = ''image/jpeg''\<rparr>,
       isLoading = False, error = None\<rparr> \<noteq> []
   \<and> handleEdit
         (\<lambda>_. Inr \<lparr>candidates = Some [\<lparr>content_of = Some \<lparr>parts = Some
            [\<lparr>inlineData = None, text_of = Some ''done''\<rparr>,
             \<lparr>inlineData = Some \<lparr>data = ''REVG'', mimeType = ''image/png''\<rparr>, text_of = None\<rparr>]\<rparr>\<rparr>]\<rparr>)
         \<lparr>mode = edit, prompt = [], editPrompt = ''add a hat'', aspectRatio = R_1_1,
          imageSrc = Some ''data:image/jpeg;base64,QUJD'',
          originalImageForEdit = Some \<lparr>data = ''QUJD'', mimeType = ''image/jpeg''\<rparr>,
          isLoading = False, error = None\<rparr> =
       \<lparr>mode = edit, prompt = [], editPrompt = ''add a hat'', aspectRatio = R_1_1,
        imageSrc = Some ''data:image/png;base64,REVG'',
        originalImageForEdit = Some \<lparr>data = ''REVG'', mimeType = ''image/png''\<rparr>,
        isLoading = False, error = None\<rparr>"
proof -
  let ?api = "\<lambda>_ :: edit_request. (Inr \<lparr>candidates = Some [\<lparr>content_of = Some \<lparr>parts = Some
            [\<lparr>inlineData = None, text_of = Some ''done''\<rparr>,
             \<lparr>inlineData = Some \<lparr>data = ''REVG'', mimeType = ''image/png''\<rparr>, text_of = None\<rparr>]\<rparr>\<rparr>]\<rparr>
           :: thrown + edit_response)"
  let ?o = "\<lparr>data = ''QUJD'', mimeType = ''image/jpeg''\<rparr>"
  let ?s = "\<lparr>mode = edit, prompt = [], editPrompt = ''add a hat'', aspectRatio = R_1_1,
       imageSrc = Some ''data:image/jpeg;base64,QUJD'',
       originalImageForEdit = Some ?o, isLoading = False, error = None\<rparr>"
  have p: "editPrompt ?s \<noteq> []" by simp
  have q: "originalImageForEdit ?s = Some ?o" by simp
  have g: "editImage ?api (editPrompt ?s) (data ?o) (mimeType ?o) = Inr ''REVG''"
    by (simp add: editImage_def editImage_try_def response_parts_def)
  from edit_success [OF p q g] have
    "imageSrc (handleEdit ?api ?s) = Some ''data:image/png;base64,REVG''"
    "originalImageForEdit (handleEdit ?api ?s) = Some \<lparr>data = ''REVG'', mimeType = ''image/png''\<rparr>"
    "\<not> isLoading (handleEdit ?api ?s)" "error (handleEdit ?api ?s) = None"
    by simp_all
  moreover have "mode (handleEdit ?api ?s) = edit" "prompt (handleEdit ?api ?s) = []"
    "editPrompt (handleEdit ?api ?s) = ''add a hat''" "aspectRatio (handleEdit ?api ?s) = R_1_1"
    by (simp_all add: handleEdit_def handleEdit_begin_def handleEdit_resume_def clearError_def split: sum.split)
  ultimately have "handleEdit ?api ?s =
       \<lparr>mode = edit, prompt = [], editPrompt = ''add a hat'', aspectRatio = R_1_1,
        imageSrc = Some ''data:image/png;base64,REVG'',
        originalImageForEdit = Some \<lparr>data = ''REVG'', mimeType = ''image/png''\<rparr>,
        isLoading = False, error = None\<rparr>"
    by (cases "handleEdit ?api ?s") simp
  with p show ?thesis by simp
qed

section \<open>What the service client returns\<close>

lemma editImage_scan_find:
  "editImage_scan ps =
     (case find (\<lambda>q. inlineData q \<noteq> None) ps of
        None \<Rightarrow> Inl (Error ''No edited image was returned. The response might have been blocked.'')
      | Some q \<Rightarrow> Inr (data (the (inlineData q))))"
  by (induction ps) (auto split: option.splits)

text \<open>
  C7. \<open>editImage\<close> resolves exactly when the API call returned a response whose part list
  \<open>response.candidates[0].content.parts\<close> exists and holds a part with inline data; the value
  is then the data of the first such part. In every other case (the call threw, the part list
  is unreachable, or no part has inline data) it rejects with one and the same error.
\<close>

theorem editImage_first_inline_part:
  "editImage api p d mt =
     (case api (editImage_request p d mt) of
        Inl e \<Rightarrow>
          Inl (Error ''Failed to edit image. Please check your instructions or try again later.'')
      | Inr response \<Rightarrow>
          (case response_parts response of
             Inl e \<Rightarrow>
               Inl (Error ''Failed to edit image. Please check your instructions or try again later.'')
           | Inr ps \<Rightarrow>
               (case find (\<lambda>q. inlineData q \<noteq> None) ps of
                  None \<Rightarrow>
                    Inl (Error ''Failed to edit image. Please check your instructions or try again later.'')
                | Some q \<Rightarrow> Inr (data (the (inlineData q))))))"
  by (simp add: editImage_def editImage_try_def editImage_scan_find
      split: sum.splits option.splits)

theorem editImage_first_inline_part_witness:
  "editImage
     (\<lambda>_. Inr \<lparr>candidates = Some [\<lparr>content_of = Some \<lparr>parts = Some
        [\<lparr>inlineData = None, text_of = Some ''here it is''\<rparr>,
         \<lparr>inlineData = Some \<lparr>data = ''REVG'', mimeType = ''image/png''\<rparr>, text_of = None\<rparr>,
         \<lparr>inlineData = Some \<lparr>data = ''R0hJ'', mimeType = ''image/png''\<rparr>, text_of = None\<rparr>]\<rparr>\<rparr>]\<rparr>)
     ''add a hat'' ''QUJD'' ''image/jpeg'' = Inr ''REVG''
   \<and> editImage
       (\<lambda>_. Inr \<lparr>candidates = Some [\<lparr>content_of = Some \<lparr>parts = Some
          [\<lparr>inlineData = None, text_of = Some ''I cannot do that''\<rparr>]\<rparr>\<rparr>]\<rparr>)
       ''add a hat'' ''QUJD'' ''image/jpeg'' =
     Inl (Error ''Failed to edit image. Please check your instructions or try again later.'')
   \<and> editImage (\<lambda>_. Inr \<lparr>candidates = Some []\<rparr>) ''add a hat'' ''QUJD'' ''image/jpeg'' =
     Inl (Error ''Failed to edit image. Please check your instructions or try again later.'')
   \<and> editImage (\<lambda>_. Inl (Error ''429 quota exceeded'')) ''add a hat'' ''QUJD'' ''image/jpeg'' =
     Inl (Error ''Failed to edit image. Please check your instructions or try again later.'')"
  by (simp add: editImage_first_inline_part response_parts_def)

text \<open>
  C10. \<open>generateImage\<close> reads \<open>generatedImages[0]\<close> only. When the list is non-empty and the
  bytes of its first image are absent or empty, it rejects with its fixed error, whatever the
  rest of the list holds; and in general the result for a list \<open>g # rest\<close> is the result for
  the one-element list \<open>[g]\<close>.
\<close>

theorem generateImage_first_only:
  assumes "api (generateImage_request p ar) = Inr response"
    and "generatedImages response = Some (g # rest)"
  shows "(image g = None \<or> (\<exists>im. image g = Some im \<and> (imageBytes im = None \<or> imageBytes im = Some []))
           \<longrightarrow> generateImage api p ar =
                 Inl (Error ''Failed to generate image. Please check the prompt or try again later.''))
       \<and> generateImage api p ar =
           generateImage (\<lambda>_. Inr (response\<lparr>generatedImages := Some [g]\<rparr>)) p ar"
  using assms
  by (auto simp: generateImage_def generateImage_try_def split: option.splits list.splits)

theorem generateImage_first_only_witness:
  "generatedImages \<lparr>generatedImages = Some
       [\<lparr>image = Some \<lparr>imageBytes = Some []\<rparr>\<rparr>, \<lparr>image = Some \<lparr>imageBytes = Some ''QUJD''\<rparr>\<rparr>]\<rparr> =
     Some [\<lparr>image = Some \<lparr>imageBytes = Some []\<rparr>\<rparr>, \<lparr>image = Some \<lparr>imageBytes = Some ''QUJD''\<rparr>\<rparr>]
   \<and> generateImage
       (\<lambda>_. Inr \<lparr>generatedImages = Some
          [\<lparr>image = Some \<lparr>imageBytes = Some []\<rparr>\<rparr>, \<lparr>image = Some \<lparr>imageBytes = Some ''QUJD''\<rparr>\<rparr>]\<rparr>)
       ''a red circle'' R_1_1 =
     Inl (Error ''Failed to generate image. Please check the prompt or try again later.'')"
proof -
  let ?g = "\<lparr>image = Some \<lparr>imageBytes = Some []\<rparr>\<rparr>"
  let ?rest = "[\<lparr>image = Some \<lparr>imageBytes = Some ''QUJD''\<rparr>\<rparr>]"
  let ?r = "\<lparr>generatedImages = Some (?g # ?rest)\<rparr>"
  let ?api = "\<lambda>_ :: gen_request. (Inr ?r :: thrown + gen_response)"
  have a: "?api (generateImage_request ''a red circle'' R_1_1) = Inr ?r" by simp
  have b: "generatedImages ?r = Some (?g # ?rest)" by simp
  from generateImage_first_only [OF a b] b show ?thesis by simp
qed

section \<open>Outcome of an issued operation\<close>

text \<open>
  C2. An operation that has passed its validation runs in two halves. The first half, up to
  the call, clears the error and sets the loading flag; Generate also clears the displayed
  image and the edit source, Edit and Upload leave them as they are. The second half runs
  when the call settles, on whatever state the page is in at that moment: if the call
  resolved, it replaces the displayed image and the edit source by the result; if it
  rejected, it leaves both as they are at that moment, sets the loading flag to false and
  stores a non-empty message in the error slot. So when nothing else writes the image while
  the call is outstanding, a failed Edit or Upload ends with the image it started from, and a
  failed Generate ends with the image and the edit source cleared.
\<close>

theorem operation_all_or_nothing:
  "(prompt s \<noteq> [] \<longrightarrow>
      handleGenerate_begin s =
        Awaiting (s\<lparr>error := None, isLoading := True, imageSrc := None,
                    originalImageForEdit := None\<rparr>) (prompt s, aspectRatio s))
   \<and> (editPrompt s \<noteq> [] \<and> originalImageForEdit s = Some orig \<longrightarrow>
      handleEdit_begin s =
        Awaiting (s\<lparr>error := None, isLoading := True\<rparr>) (editPrompt s, data orig, mimeType orig))
   \<and> (startsWith (file_type f) ''image/'' \<longrightarrow>
      handleFileChange_begin s (Some f) = Awaiting (s\<lparr>error := None, isLoading := True\<rparr>) f)
   \<and> (case generateImage gapi p ar of
         Inr b \<Rightarrow>
           imageSrc (handleGenerate_resume t (generateImage gapi p ar)) =
             Some (''data:image/jpeg;base64,'' @ b)
           \<and> originalImageForEdit (handleGenerate_resume t (generateImage gapi p ar)) =
             Some \<lparr>data = b, mimeType = ''image/jpeg''\<rparr>
       | Inl e \<Rightarrow>
           imageSrc (handleGenerate_resume t (generateImage gapi p ar)) = imageSrc t
           \<and> originalImageForEdit (handleGenerate_resume t (generateImage gapi p ar)) =
             originalImageForEdit t
           \<and> \<not> isLoading (handleGenerate_resume t (generateImage gapi p ar))
           \<and> truthy (error (handleGenerate_resume t (generateImage gapi p ar))))
   \<and> (case editImage eapi q d mt of
         Inr b \<Rightarrow>
           imageSrc (handleEdit_resume t (editImage eapi q d mt)) =
             Some (''data:image/png;base64,'' @ b)
           \<and> originalImageForEdit (handleEdit_resume t (editImage eapi q d mt)) =
             Some \<lparr>data = b, mimeType = ''image/png''\<rparr>
       | Inl e \<Rightarrow>
           imageSrc (handleEdit_resume t (editImage eapi q d mt)) = imageSrc t
           \<and> originalImageForEdit (handleEdit_resume t (editImage eapi q d mt)) =
             originalImageForEdit t
           \<and> \<not> isLoading (handleEdit_resume t (editImage eapi q d mt))
           \<and> truthy (error (handleEdit_resume t (editImage eapi q d mt))))
   \<and> (case fileToBase64 reader g of
         Inr pl \<Rightarrow>
           imageSrc (handleFileChange_resume t (fileToBase64 reader g)) =
             Some (''data:'' @ payload_mimeType pl @ '';base64,'' @ base64 pl)
           \<and> originalImageForEdit (handleFileChange_resume t (fileToBase64 reader g)) =
             Some \<lparr>data = base64 pl, mimeType = payload_mimeType pl\<rparr>
       | Inl e \<Rightarrow>
           imageSrc (handleFileChange_resume t (fileToBase64 reader g)) = imageSrc t
           \<and> originalImageForEdit (handleFileChange_resume t (fileToBase64 reader g)) =
             originalImageForEdit t
           \<and> \<not> isLoading (handleFileChange_resume t (fileToBase64 reader g))
           \<and> truthy (error (handleFileChange_resume t (fileToBase64 reader g))))
   \<and> (prompt s \<noteq> [] \<longrightarrow>
      (case generateImage gapi (prompt s) (aspectRatio s) of
         Inr b \<Rightarrow>
           imageSrc (handleGenerate gapi s) = Some (''data:image/jpeg;base64,'' @ b)
           \<and> originalImageForEdit (handleGenerate gapi s) = Some \<lparr>data = b, mimeType = ''image/jpeg''\<rparr>
       | Inl e \<Rightarrow>
           imageSrc (handleGenerate gapi s) = None
           \<and> originalImageForEdit (handleGenerate gapi s) = None
           \<and> \<not> isLoading (handleGenerate gapi s)
           \<and> truthy (error (handleGenerate gapi s))))
   \<and> (editPrompt s \<noteq> [] \<and> originalImageForEdit s = Some orig \<longrightarrow>
      (case editImage eapi (editPrompt s) (data orig) (mimeType orig) of
         Inr b \<Rightarrow>
           imageSrc (handleEdit eapi s) = Some (''data:image/png;base64,'' @ b)
           \<and> originalImageForEdit (handleEdit eapi s) = Some \<lparr>data = b, mimeType = ''image/png''\<rparr>
       | Inl e \<Rightarrow>
           imageSrc (handleEdit eapi s) = imageSrc s
           \<and> originalImageForEdit (handleEdit eapi s) = originalImageForEdit s
           \<and> \<not> isLoading (handleEdit eapi s)
           \<and> truthy (error (handleEdit eapi s))))
   \<and> (startsWith (file_type f) ''image/'' \<longrightarrow>
      (case fileToBase64 reader f of
         Inr p \<Rightarrow>
           imageSrc (handleFileChange reader s (Some f)) =
             Some (''data:'' @ payload_mimeType p @ '';base64,'' @ base64 p)
           \<and> originalImageForEdit (handleFileChange reader s (Some f)) =
             Some \<lparr>data = base64 p, mimeType = payload_mimeType p\<rparr>
       | Inl e \<Rightarrow>
           imageSrc (handleFileChange reader s (Some f)) = imageSrc s
           \<and> originalImageForEdit (handleFileChange reader s (Some f)) = originalImageForEdit s
           \<and> \<not> isLoading (handleFileChange reader s (Some f))
           \<and> truthy (error (handleFileChange reader s (Some f)))))"
  apply (intro conjI impI)
  subgoal
    by (simp add: handleGenerate_begin_def clearError_def)
  subgoal
    by (simp add: handleEdit_begin_def clearError_def)
  subgoal
    by (simp add: handleFileChange_begin_def clearError_def)
  subgoal
    by (auto simp: handleGenerate_resume_def truthy_def generateImage_def split: sum.splits)
  subgoal
    by (auto simp: handleEdit_resume_def truthy_def editImage_def split: sum.splits)
  subgoal
    by (simp add: handleFileChange_resume_def truthy_def split: sum.splits)
  subgoal
    by (auto simp: handleGenerate_def handleGenerate_begin_def handleGenerate_resume_def
        truthy_def generateImage_def split: sum.splits)
  subgoal
    by (auto simp: handleEdit_def handleEdit_begin_def handleEdit_resume_def clearError_def
        truthy_def editImage_def split: sum.splits)
  subgoal
    by (simp add: handleFileChange_def handleFileChange_begin_def handleFileChange_resume_def
        clearError_def truthy_def split: sum.splits)
  done

theorem operation_all_or_nothing_witness:
  "prompt \<lparr>mode = edit, prompt = ''a red circle'', editPrompt = ''add a hat'', aspectRatio = R_1_1,
       imageSrc = Some ''data:image/jpeg;base64,QUJD'',
       originalImageForEdit = Some \<lparr>data = ''QUJD'', mimeType = ''image/jpeg''\<rparr>,
       isLoading = False, error = None\<rparr> \<noteq> []
   \<and> imageSrc (handleGenerate (\<lambda>_. Inr \<lparr>generatedImages = Some []\<rparr>)
         \<lparr>mode = edit, prompt = ''a red circle'', editPrompt = ''add a hat'', aspectRatio = R_1_1,
          imageSrc = Some ''data:image/jpeg;base64,QUJD'',
          originalImageForEdit = Some \<lparr>data = ''QUJD'', mimeType = ''image/jpeg''\<rparr>,
          isLoading = False, error = None\<rparr>) = None
   \<and> truthy (error (handleGenerate (\<lambda>_. Inr \<lparr>generatedImages = Some []\<rparr>)
         \<lparr>mode = edit, prompt = ''a red circle'', editPrompt = ''add a hat'', aspectRatio = R_1_1,
          imageSrc = Some ''data:image/jpeg;base64,QUJD'',
          originalImageForEdit = Some \<lparr>data = ''QUJD'', mimeType = ''image/jpeg''\<rparr>,
          isLoading = False, error = None\<rparr>))
   \<and> imageSrc (handleEdit (\<lambda>_. Inl (Error ''503''))
         \<lparr>mode = edit, prompt = ''a red circle'', editPrompt = ''add a hat'', aspectRatio = R_1_1,
          imageSrc = Some ''data:image/jpeg;base64,QUJD'',
          originalImageForEdit = Some \<lparr>data = ''QUJD'', mimeType = ''image/jpeg''\<rparr>,
          isLoading = False, error = None\<rparr>) = Some ''data:image/jpeg;base64,QUJD''
   \<and> \<not> isLoading (handleEdit (\<lambda>_. Inl (Error ''503''))
         \<lparr>mode = edit, prompt = ''a red circle'', editPrompt = ''add a hat'', aspectRatio = R_1_1,
          imageSrc = Some ''data:image/jpeg;base64,QUJD'',
          originalImageForEdit = Some \<lparr>data = ''QUJD'', mimeType = ''image/jpeg''\<rparr>,
          isLoading = False, error = None\<rparr>)
   \<and> startsWith (file_type \<lparr>file_name = ''cat.png'', file_type = ''image/png''\<rparr>) ''image/''
   \<and> originalImageForEdit (handleFileChange (\<lambda>_. Inl ProgressEvent)
         \<lparr>mode = edit, prompt = ''a red circle'', editPrompt = ''add a hat'', aspectRatio = R_1_1,
          imageSrc = Some ''data:image/jpeg;base64,QUJD'',
          originalImageForEdit = Some \<lparr>data = ''QUJD'', mimeType = ''image/jpeg''\<rparr>,
          isLoading = False, error = None\<rparr>
         (Some \<lparr>file_name = ''cat.png'', file_type = ''image/png''\<rparr>)) =
       Some \<lparr>data = ''QUJD'', mimeType = ''image/jpeg''\<rparr>
   \<and> truthy (error (handleFileChange (\<lambda>_. Inl ProgressEvent)
         \<lparr>mode = edit, prompt = ''a red circle'', editPrompt = ''add a hat'', aspectRatio = R_1_1,
          imageSrc = Some ''data:image/jpeg;base64,QUJD'',
          originalImageForEdit = Some \<lparr>data = ''QUJD'', mimeType = ''image/jpeg''\<rparr>,
          isLoading = False, error = None\<rparr>
         (Some \<lparr>file_name = ''cat.png'', file_type = ''image/png''\<rparr>)))
   \<and> imageSrc (handleGenerate_resume
         \<lparr>mode = edit, prompt = ''a red circle'', editPrompt = [], aspectRatio = R_1_1,
          imageSrc = Some ''data:image/png;base64,iVBORw'',
          originalImageForEdit = Some \<lparr>data = ''iVBORw'', mimeType = ''image/png''\<rparr>,
          isLoading = False, error = None\<rparr>
         (generateImage (\<lambda>_. Inr \<lparr>generatedImages = Some []\<rparr>) ''a red circle'' R_1_1)) =
       Some ''data:image/png;base64,iVBORw''
   \<and> handleGenerate_begin
         \<lparr>mode = edit, prompt = ''a red circle'', editPrompt = ''add a hat'', aspectRatio = R_1_1,
          imageSrc = Some ''data:image/jpeg;base64,QUJD'',
          originalImageForEdit = Some \<lparr>data = ''QUJD'', mimeType = ''image/jpeg''\<rparr>,
          isLoading = False, error = None\<rparr> =
       Awaiting
         \<lparr>mode = edit, prompt = ''a red circle'', editPrompt = ''add a hat'', aspectRatio = R_1_1,
          imageSrc = None, originalImageForEdit = None, isLoading = True, error = None\<rparr>
         (''a red circle'', R_1_1)"
proof -
  let ?o = "\<lparr>data = ''QUJD'', mimeType = ''image/jpeg''\<rparr>"
  let ?s = "\<lparr>mode = edit, prompt = ''a red circle'', editPrompt = ''add a hat'', aspectRatio = R_1_1,
       imageSrc = Some ''data:image/jpeg;base64,QUJD'', originalImageForEdit = Some ?o,
       isLoading = False, error = None\<rparr>"
  let ?g = "\<lambda>_ :: gen_request. (Inr \<lparr>generatedImages = Some []\<rparr> :: thrown + gen_response)"
  let ?e = "\<lambda>_ :: edit_request. (Inl (Error ''503'') :: thrown + edit_response)"
  let ?r = "\<lambda>_ :: File. (Inl ProgressEvent :: thrown + string)"
  let ?f = "\<lparr>file_name = ''cat.png'', file_type = ''image/png''\<rparr>"
  let ?t = "\<lparr>mode = edit, prompt = ''a red circle'', editPrompt = [], aspectRatio = R_1_1,
       imageSrc = Some ''data:image/png;base64,iVBORw'',
       originalImageForEdit = Some \<lparr>data = ''iVBORw'', mimeType = ''image/png''\<rparr>,
       isLoading = False, error = None\<rparr>"
  have g: "generateImage ?g (prompt ?s) (aspectRatio ?s) =
      Inl (Error ''Failed to generate image. Please check the prompt or try again later.'')"
    by (simp add: generateImage_def generateImage_try_def)
  have e: "editImage ?e (editPrompt ?s) (data ?o) (mimeType ?o) =
      Inl (Error ''Failed to edit image. Please check your instructions or try again later.'')"
    by (simp add: editImage_def)
  have r: "fileToBase64 ?r ?f = Inl ProgressEvent"
    by (simp add: fileToBase64_def)
  have t: "startsWith (file_type ?f) ''image/''"
    by (simp add: startsWith_def)
  have p: "prompt ?s \<noteq> []" "editPrompt ?s \<noteq> [] \<and> originalImageForEdit ?s = Some ?o"
    by simp_all
  have g': "generateImage ?g ''a red circle'' R_1_1 =
      Inl (Error ''Failed to generate image. Please check the prompt or try again later.'')"
    by (simp add: generateImage_def generateImage_try_def)
  from operation_all_or_nothing [where s = ?s and gapi = ?g and eapi = ?e and reader = ?r
      and f = ?f and orig = ?o and t = ?t and p = "''a red circle''" and ar = R_1_1
      and q = "''add a hat''" and d = "''QUJD''" and mt = "''image/jpeg''" and g = ?f] g g' e r t p
  show ?thesis by simp
qed

section \<open>The payload that \<open>fileToBase64\<close> extracts\<close>








section \<open>The loading flag as a gate\<close>

lemma loading_disables_generate_and_edit:
  "isLoading (app u) \<Longrightarrow> step u ClickGenerate = None \<and> step u ClickEdit = None"
  by simp

lemma loading_leaves_upload_enabled:
  "mode (app u) = edit \<Longrightarrow> step u (ChooseFile fo) \<noteq> None"
  by (simp split: started.split)

lemma tab_always_enabled: "step u (ClickTab m) \<noteq> None"
  by simp

text \<open>
  C1 does not hold of the page as rendered. The generate and edit buttons are disabled while
  \<open>isLoading\<close> is true, but the tabs and the upload button are not, and \<open>handleFileChange\<close> does
  not look at the flag. After typing a prompt and clicking Generate, the user can open the
  edit tab and choose an image file while the generation is outstanding: the state is
  reachable, \<open>isLoading\<close> is true, and two operations are in flight. When the file read then
  settles, its handler sets \<open>isLoading\<close> to false although the generation is still
  outstanding, and the edit button is enabled again, so a third operation can be issued.
\<close>

theorem upload_while_generating:
  "run initial_ui
     [TypePrompt ''a red circle'', ClickGenerate, ClickTab edit,
      ChooseFile (Some \<lparr>file_name = ''cat.png'', file_type = ''image/png''\<rparr>)] =
     Some \<lparr>app = \<lparr>mode = edit, prompt = ''a red circle'', editPrompt = [], aspectRatio = R_1_1,
                  imageSrc = None, originalImageForEdit = None, isLoading = True, error = None\<rparr>,
           inflight = [GenerateCall ''a red circle'' R_1_1,
                       FileRead \<lparr>file_name = ''cat.png'', file_type = ''image/png''\<rparr>]\<rparr>
   \<and> run initial_ui
     [TypePrompt ''a red circle'', ClickGenerate, ClickTab edit,
      ChooseFile (Some \<lparr>file_name = ''cat.png'', file_type = ''image/png''\<rparr>),
      Settle 1 (ReadSettles (Inr ''data:image/png;base64,iVBORw''))] =
     Some \<lparr>app = \<lparr>mode = edit, prompt = ''a red circle'', editPrompt = [], aspectRatio = R_1_1,
                  imageSrc = Some ''data:image/png;base64,iVBORw'',
                  originalImageForEdit = Some \<lparr>data = ''iVBORw'', mimeType = ''image/png''\<rparr>,
                  isLoading = False, error = None\<rparr>,
           inflight = [GenerateCall ''a red circle'' R_1_1]\<rparr>
   \<and> run initial_ui
     [TypePrompt ''a red circle'', ClickGenerate, ClickTab edit,
      ChooseFile (Some \<lparr>file_name = ''cat.png'', file_type = ''image/png''\<rparr>),
      Settle 1 (ReadSettles (Inr ''data:image/png;base64,iVBORw'')),
      TypeEditPrompt ''add a hat'', ClickEdit] =
     Some \<lparr>app = \<lparr>mode = edit, prompt = ''a red circle'', editPrompt = ''add a hat'',
                  aspectRatio = R_1_1, imageSrc = Some ''data:image/png;base64,iVBORw'',
                  originalImageForEdit = Some \<lparr>data = ''iVBORw'', mimeType = ''image/png''\<rparr>,
                  isLoading = True, error = None\<rparr>,
           inflight = [GenerateCall ''a red circle'' R_1_1,
                       EditCall ''add a hat'' ''iVBORw'' ''image/png'']\<rparr>"
  by (simp add: initial_ui_def initial_def handleGenerate_begin_def handleModeChange_def
      clearError_def handleFileChange_begin_def startsWith_def handleFileChange_resume_def
      fileToBase64_def handleEdit_begin_def)

text \<open>
  The same overlap decides what a failed generation leaves on the page. Its continuation
  writes only the error slot and the loading flag, so when an upload has settled while the
  generation was outstanding, the run ends with the uploaded image held, not with the image
  cleared.
\<close>

lemma failed_generate_after_overlapping_upload:
  "run initial_ui
     [TypePrompt ''a red circle'', ClickGenerate, ClickTab edit,
      ChooseFile (Some \<lparr>file_name = ''cat.png'', file_type = ''image/png''\<rparr>),
      Settle 1 (ReadSettles (Inr ''data:image/png;base64,iVBORw'')),
      Settle 0 (GenerateSettles (Inl (Error ''503'')))] =
     Some \<lparr>app = \<lparr>mode = edit, prompt = ''a red circle'', editPrompt = [], aspectRatio = R_1_1,
                  imageSrc = Some ''data:image/png;base64,iVBORw'',
                  originalImageForEdit = Some \<lparr>data = ''iVBORw'', mimeType = ''image/png''\<rparr>,
                  isLoading = False,
                  error = Some ''Failed to generate image. Please check the prompt or try again later.''\<rparr>,
           inflight = []\<rparr>"
  by (simp add: initial_ui_def initial_def handleGenerate_begin_def handleModeChange_def
      clearError_def handleFileChange_begin_def startsWith_def handleFileChange_resume_def
      fileToBase64_def handleGenerate_resume_def generateImage_def)

end
